theory Spec2Isabelle
  imports Main
begin

section \<open>Dependency reconciliation of mrm-core (\<open>src/npm.js\<close>)\<close>

text \<open>
  The module decides which of the requested npm packages have to be installed or removed
  and builds one \<open>npm\<close> or \<open>yarn\<close> command for them. Everything it reads from the outside
  is a parameter of the model:
  \<^item> the \<open>semver\<close> library, as the two functions the module calls;
  \<^item> the project on disk: the sections of \<open>package.json\<close>, the \<open>version\<close> field of
    \<open>./node_modules/<name>/package.json\<close>, and whether \<open>yarn.lock\<close> exists.
  A JavaScript object of type \<open>Record<string, string>\<close> is a map from its own property
  names to strings. An object literal whose key order matters (\<open>Object.keys\<close>) is an
  association list. A thrown \<open>MrmError\<close> is the left summand of the result; the command
  handed to \<open>execCommand\<close> is the value returned. Log output is not part of the model.
\<close>

subsection \<open>JavaScript values\<close>

text \<open>
  The value of a property access \<open>obj[name]\<close> on a plain object: \<open>undefined\<close>, the string
  stored under an own property, or a member inherited from \<open>Object.prototype\<close> (a function,
  or the prototype itself for \<open>__proto__\<close>), kept as the text it contributes to a template
  literal.
\<close>

datatype jsval = Undefined | Str string | Member string

text \<open>
  The members every plain object inherits from \<open>Object.prototype\<close>, each with the text
  Node prints for it in a template literal.
\<close>

definition object_prototype :: "(string \<times> string) list" where
  "object_prototype =
    [(''constructor'', ''function Object() { [native code] }''),
     (''__defineGetter__'', ''function __defineGetter__() { [native code] }''),
     (''__defineSetter__'', ''function __defineSetter__() { [native code] }''),
     (''hasOwnProperty'', ''function hasOwnProperty() { [native code] }''),
     (''__lookupGetter__'', ''function __lookupGetter__() { [native code] }''),
     (''__lookupSetter__'', ''function __lookupSetter__() { [native code] }''),
     (''isPrototypeOf'', ''function isPrototypeOf() { [native code] }''),
     (''propertyIsEnumerable'', ''function propertyIsEnumerable() { [native code] }''),
     (''toString'', ''function toString() { [native code] }''),
     (''valueOf'', ''function valueOf() { [native code] }''),
     (''__proto__'', ''[object Object]''),
     (''toLocaleString'', ''function toLocaleString() { [native code] }'')]"

text \<open>\<open>obj[name]\<close>: an own property first, then the prototype.\<close>

definition get_prop :: "(string \<rightharpoonup> string) \<Rightarrow> string \<Rightarrow> jsval" where
  "get_prop obj name =
    (case obj name of
       Some s \<Rightarrow> Str s
     | None \<Rightarrow>
        (case map_of object_prototype name of
           Some text \<Rightarrow> Member text
         | None \<Rightarrow> Undefined))"

text \<open>A value that is a string or \<open>undefined\<close>, as read from a JSON document.\<close>

fun js :: "string option \<Rightarrow> jsval" where
  "js None = Undefined"
| "js (Some s) = Str s"

text \<open>
  Every test of the module on a looked-up value is a truthiness test: \<open>undefined\<close> and the
  empty string are falsy; every other string, and every function or object, is truthy.
\<close>

fun truthy :: "jsval \<Rightarrow> bool" where
  "truthy Undefined = False"
| "truthy (Str s) = (s \<noteq> [])"
| "truthy (Member t) = True"

text \<open>The string a value contributes to a template literal.\<close>

fun str :: "jsval \<Rightarrow> string" where
  "str Undefined = ''undefined''"
| "str (Str s) = s"
| "str (Member t) = t"

datatype error = MrmError string

subsection \<open>The outside world\<close>

text \<open>
  \<open>validRange sv r\<close> holds when \<open>semver.validRange(r)\<close> returns a range (a non-empty
  string, so a truthy value) and fails when it returns \<open>null\<close>; \<open>satisfies sv v r\<close> is
  \<open>semver.satisfies(v, r)\<close>. \<open>manifest_get p k\<close> is \<open>packageJson(...).get(k)\<close>,
  \<open>module_version p name\<close> is \<open>json('./node_modules/<name>/package.json').get('version')\<close>
  and \<open>yarn_lock p\<close> is \<open>fs.existsSync('yarn.lock')\<close>.
\<close>

record semver =
  validRange :: "string \<Rightarrow> bool"
  satisfies :: "string \<Rightarrow> string \<Rightarrow> bool"

record project =
  manifest_get :: "string \<Rightarrow> (string \<rightharpoonup> string) option"
  module_version :: "string \<rightharpoonup> string"
  yarn_lock :: bool

text \<open>
  The two library calls on JavaScript values. Both build a \<open>Range\<close> from the range
  argument inside a \<open>try\<close>; for an argument that is no string the constructor throws, so
  \<open>semver.validRange\<close> returns \<open>null\<close> and \<open>semver.satisfies\<close> returns \<open>false\<close>.
\<close>

fun semver_validRange :: "semver \<Rightarrow> jsval \<Rightarrow> bool" where
  "semver_validRange sv (Str r) = validRange sv r"
| "semver_validRange sv v = False"

fun semver_satisfies :: "semver \<Rightarrow> jsval \<Rightarrow> jsval \<Rightarrow> bool" where
  "semver_satisfies sv (Str v) (Str r) = satisfies sv v r"
| "semver_satisfies sv v r = False"

subsection \<open>Options, requests and commands\<close>

record options =
  opt_dev :: "bool option"
  opt_yarn :: bool
  opt_versions :: "(string \<rightharpoonup> string) option"

record run_options =
  run_dev :: bool
  run_remove :: bool
  run_stdio :: "string option"
  run_cwd :: "string option"

text \<open>
  The first argument of \<open>install\<close>: a string, an array of strings, an object from names
  to ranges (its entries in the order of \<open>Object.keys\<close>), or anything else.
\<close>

datatype dep_request =
  DepString string
| DepArray "string list"
| DepObject "(string \<times> string) list"
| DepOther

text \<open>The first argument of \<open>uninstall\<close>: a string or an array of strings.\<close>

datatype name_request =
  OneName string
| NameArray "string list"

record command =
  program :: string
  args :: "string list"
  stdio :: string
  cwd :: "string option"

subsection \<open>Backends\<close>

definition isUsingYarn :: "project \<Rightarrow> bool" where
  "isUsingYarn p = yarn_lock p"

definition runNpm :: "string list \<Rightarrow> run_options \<Rightarrow> command" where
  "runNpm deps opts =
    \<lparr> program = ''npm'',
      args = [if run_remove opts then ''uninstall'' else ''install'',
              if run_dev opts then ''--save-dev'' else ''--save''] @ deps,
      stdio = (case run_stdio opts of None \<Rightarrow> ''inherit'' | Some s \<Rightarrow> s),
      cwd = run_cwd opts \<rparr>"

definition runYarn :: "string list \<Rightarrow> run_options \<Rightarrow> command" where
  "runYarn deps opts =
    (let add = (if run_dev opts then [''add'', ''--dev''] else [''add'']);
         remove = [''remove'']
     in \<lparr> program = ''yarn'',
          args = (if run_remove opts then remove else add) @ deps,
          stdio = (case run_stdio opts of None \<Rightarrow> ''inherit'' | Some s \<Rightarrow> s),
          cwd = run_cwd opts \<rparr>)"

text \<open>The value of \<open>run\<close> in \<open>install\<close> and \<open>uninstall\<close>.\<close>

definition select_run :: "project \<Rightarrow> options \<Rightarrow> string list \<Rightarrow> run_options \<Rightarrow> command" where
  "select_run p opts = (if opt_yarn opts \<or> isUsingYarn p then runYarn else runNpm)"

subsection \<open>Reading the project\<close>

definition getVersionedDep :: "string \<Rightarrow> (string \<rightharpoonup> string) \<Rightarrow> string" where
  "getVersionedDep dep versions =
    (let version = (if truthy (get_prop versions dep) then str (get_prop versions dep)
                    else ''latest'')
     in dep @ ''@'' @ version)"

definition getOwnDependencies :: "project \<Rightarrow> bool \<Rightarrow> (string \<rightharpoonup> string)" where
  "getOwnDependencies p dev =
    (case manifest_get p (if dev then ''devDependencies'' else ''dependencies'') of
       None \<Rightarrow> Map.empty
     | Some section \<Rightarrow> section)"

definition getInstalledVersion :: "project \<Rightarrow> string \<Rightarrow> string option" where
  "getInstalledVersion p name = module_version p name"

subsection \<open>The install decision\<close>

text \<open>\<open>Array.prototype.filter\<close> with a callback that may throw: the first throw ends the call.\<close>

fun filter_throw :: "('a \<Rightarrow> error + bool) \<Rightarrow> 'a list \<Rightarrow> error + 'a list" where
  "filter_throw f [] = Inr []"
| "filter_throw f (x # xs) =
    (case f x of
       Inl e \<Rightarrow> Inl e
     | Inr keep \<Rightarrow>
        (case filter_throw f xs of
           Inl e \<Rightarrow> Inl e
         | Inr ys \<Rightarrow> Inr (if keep then x # ys else ys)))"

text \<open>The callback of \<open>getUnsatisfiedDeps\<close>, branch by branch.\<close>

definition unsatisfied ::
  "semver \<Rightarrow> project \<Rightarrow> (string \<rightharpoonup> string) \<Rightarrow> (string \<rightharpoonup> string) \<Rightarrow> string \<Rightarrow> error + bool" where
  "unsatisfied sv p versions ownDependencies dep =
    (let required = get_prop versions dep in
     if truthy required \<and> \<not> semver_validRange sv required then
       Inl (MrmError (''Invalid npm version: '' @ str required @ ''. Use proper semver range syntax.''))
     else
       let installed = js (getInstalledVersion p dep) in
       if \<not> truthy installed then Inr True
       else if \<not> truthy (get_prop ownDependencies dep) then Inr True
       else if \<not> truthy required then Inr (\<not> truthy installed)
       else Inr (\<not> semver_satisfies sv installed required))"

definition getUnsatisfiedDeps ::
  "semver \<Rightarrow> project \<Rightarrow> string list \<Rightarrow> (string \<rightharpoonup> string) \<Rightarrow> bool \<Rightarrow> error + string list" where
  "getUnsatisfiedDeps sv p deps versions dev =
    (let ownDependencies = getOwnDependencies p dev
     in filter_throw (unsatisfied sv p versions ownDependencies) deps)"

subsection \<open>install and uninstall\<close>

text \<open>The values of \<open>dependencies\<close> and \<open>versions\<close> after the branches on the shape of \<open>deps\<close>.\<close>

fun dependencies_of :: "dep_request \<Rightarrow> string list" where
  "dependencies_of (DepString s) = [s]"
| "dependencies_of (DepArray l) = l"
| "dependencies_of (DepObject m) = map fst m"
| "dependencies_of DepOther = []"

fun versions_of :: "dep_request \<Rightarrow> options \<Rightarrow> (string \<rightharpoonup> string)" where
  "versions_of (DepObject m) opts = map_of m"
| "versions_of deps opts = (case opt_versions opts of None \<Rightarrow> Map.empty | Some v \<Rightarrow> v)"

definition install :: "semver \<Rightarrow> project \<Rightarrow> dep_request \<Rightarrow> options \<Rightarrow> error + command option" where
  "install sv p deps opts =
    (let dev = (opt_dev opts \<noteq> Some False);
         run = select_run p opts;
         versions = versions_of deps opts;
         dependencies = dependencies_of deps
     in case getUnsatisfiedDeps sv p dependencies versions dev of
          Inl e \<Rightarrow> Inl e
        | Inr newDeps \<Rightarrow>
            if length newDeps = 0 then Inr None
            else
              let versionedDeps = map (\<lambda>dep. getVersionedDep dep versions) newDeps
              in Inr (Some (run versionedDeps
                     \<lparr> run_dev = dev, run_remove = False, run_stdio = None, run_cwd = None \<rparr>)))"

fun castArray :: "name_request \<Rightarrow> string list" where
  "castArray (OneName s) = [s]"
| "castArray (NameArray l) = l"

text \<open>The value of \<open>newDeps\<close> in \<open>uninstall\<close>.\<close>

definition removable :: "project \<Rightarrow> name_request \<Rightarrow> options \<Rightarrow> string list" where
  "removable p deps opts =
    (let dev = (opt_dev opts \<noteq> Some False);
         installed = getOwnDependencies p dev
     in filter (\<lambda>dep. truthy (get_prop installed dep)) (castArray deps))"

definition uninstall :: "project \<Rightarrow> name_request \<Rightarrow> options \<Rightarrow> command option" where
  "uninstall p deps opts =
    (let dev = (opt_dev opts \<noteq> Some False);
         run = select_run p opts;
         newDeps = removable p deps opts
     in if length newDeps = 0 then None
        else Some (run newDeps
               \<lparr> run_dev = dev, run_remove = True, run_stdio = None, run_cwd = None \<rparr>))"

section \<open>Helper lemmas\<close>

lemma truthy_js_iff: "truthy (js x) \<longleftrightarrow> (\<exists>s. x = Some s \<and> s \<noteq> [])"
  by (cases x) auto

lemma get_prop_own: "obj name = Some s \<Longrightarrow> get_prop obj name = Str s"
  by (simp add: get_prop_def)

lemma get_prop_plain: "map_of object_prototype name = None \<Longrightarrow> get_prop obj name = js (obj name)"
  by (cases "obj name") (simp_all add: get_prop_def)

lemma filter_throw_first_error:
  "find (\<lambda>x. isl (f x)) xs = Some x \<Longrightarrow> filter_throw f xs = Inl (projl (f x))"
proof (induction xs)
  case Nil
  then show ?case by simp
next
  case (Cons a xs)
  then show ?case by (cases "f a") (auto split: if_splits)
qed

lemma filter_throw_Inr:
  "filter_throw f xs = Inr ys \<Longrightarrow> ys = filter (\<lambda>x. f x = Inr True) xs"
proof (induction xs arbitrary: ys)
  case Nil
  then show ?case by simp
next
  case (Cons a xs)
  then show ?case by (auto split: sum.splits if_splits)
qed

lemma find_exists: "x \<in> set xs \<Longrightarrow> P x \<Longrightarrow> \<exists>y. find P xs = Some y"
  by (cases "find P xs") (auto simp: find_None_iff)

lemma find_cong_set: "(\<And>x. x \<in> set xs \<Longrightarrow> P x = Q x) \<Longrightarrow> find P xs = find Q xs"
  by (induction xs) auto

lemma isl_unsatisfied:
  "isl (unsatisfied sv p versions own dep) =
     (truthy (get_prop versions dep) \<and> \<not> semver_validRange sv (get_prop versions dep))"
  by (simp add: unsatisfied_def Let_def)

lemma unsatisfied_invalid:
  "truthy (get_prop versions dep) \<Longrightarrow> \<not> semver_validRange sv (get_prop versions dep) \<Longrightarrow>
   unsatisfied sv p versions own dep =
     Inl (MrmError (''Invalid npm version: '' @ str (get_prop versions dep)
                    @ ''. Use proper semver range syntax.''))"
  by (simp add: unsatisfied_def)

lemma getUnsatisfiedDeps_first_invalid:
  assumes "find (\<lambda>d. truthy (get_prop versions d) \<and> \<not> semver_validRange sv (get_prop versions d))
             deps = Some bad"
  shows "getUnsatisfiedDeps sv p deps versions dev =
    Inl (MrmError (''Invalid npm version: '' @ str (get_prop versions bad)
                   @ ''. Use proper semver range syntax.''))"
proof -
  let ?f = "unsatisfied sv p versions (getOwnDependencies p dev)"
  from assms have bad: "truthy (get_prop versions bad)"
      "\<not> semver_validRange sv (get_prop versions bad)"
    by (auto simp: find_Some_iff)
  from assms have "find (\<lambda>d. isl (?f d)) deps = Some bad"
    by (simp add: isl_unsatisfied)
  then have "filter_throw ?f deps = Inl (projl (?f bad))"
    by (rule filter_throw_first_error)
  with bad show ?thesis
    by (simp add: getUnsatisfiedDeps_def unsatisfied_invalid)
qed

lemma kept_not_thrown:
  assumes "getUnsatisfiedDeps sv p deps versions dev = Inr newDeps" and "d \<in> set newDeps"
  shows "\<not> (truthy (get_prop versions d) \<and> \<not> semver_validRange sv (get_prop versions d))"
proof -
  from assms(1)
  have "newDeps = filter (\<lambda>x. unsatisfied sv p versions (getOwnDependencies p dev) x = Inr True) deps"
    unfolding getUnsatisfiedDeps_def Let_def by (rule filter_throw_Inr)
  with assms(2) have "unsatisfied sv p versions (getOwnDependencies p dev) d = Inr True"
    by simp
  then have "\<not> isl (unsatisfied sv p versions (getOwnDependencies p dev) d)"
    by simp
  then show ?thesis by (simp add: isl_unsatisfied)
qed

lemma getVersionedDep_suffix:
  assumes "\<not> (truthy (get_prop versions dep) \<and> \<not> semver_validRange sv (get_prop versions dep))"
  shows "getVersionedDep dep versions =
     dep @ ''@'' @ (case versions dep of None \<Rightarrow> ''latest''
                   | Some r \<Rightarrow> if r = [] then ''latest'' else r)"
  using assms
  by (cases "versions dep"; cases "map_of object_prototype dep")
     (simp_all add: getVersionedDep_def get_prop_def)

lemma uninstall_command:
  "uninstall p deps opts =
     (if removable p deps opts = [] then None
      else Some \<lparr> program = (if opt_yarn opts \<or> isUsingYarn p then ''yarn'' else ''npm''),
                  args = (if opt_yarn opts \<or> isUsingYarn p then [''remove'']
                          else [''uninstall'',
                                if opt_dev opts \<noteq> Some False then ''--save-dev'' else ''--save''])
                         @ removable p deps opts,
                  stdio = ''inherit'', cwd = None \<rparr>)"
  by (simp add: uninstall_def select_run_def runYarn_def runNpm_def Let_def)

lemma install_command:
  assumes "getUnsatisfiedDeps sv p (dependencies_of deps) (versions_of deps opts)
             (opt_dev opts \<noteq> Some False) = Inr newDeps"
  shows "install sv p deps opts =
     (if newDeps = [] then Inr None
      else Inr (Some \<lparr> program = (if opt_yarn opts \<or> isUsingYarn p then ''yarn'' else ''npm''),
                  args = (if opt_yarn opts \<or> isUsingYarn p
                          then (if opt_dev opts \<noteq> Some False then [''add'', ''--dev''] else [''add''])
                          else [''install'',
                                if opt_dev opts \<noteq> Some False then ''--save-dev'' else ''--save''])
                         @ map (\<lambda>dep. getVersionedDep dep (versions_of deps opts)) newDeps,
                  stdio = ''inherit'', cwd = None \<rparr>))"
  using assms by (simp add: install_def select_run_def runYarn_def runNpm_def Let_def)

lemma install_Some_D:
  assumes "install sv p deps opts = Inr (Some c)"
  shows "\<exists>newDeps. getUnsatisfiedDeps sv p (dependencies_of deps) (versions_of deps opts)
             (opt_dev opts \<noteq> Some False) = Inr newDeps \<and> newDeps \<noteq> []"
  using assms by (auto simp: install_def Let_def split: sum.splits if_splits)

section \<open>The unsatisfied set (C1)\<close>

text \<open>
  C1: a requested package is in the result of \<open>getUnsatisfiedDeps\<close> exactly when it is not
  installed, or is installed but absent from the dependency map of the active section, or
  has a required range that its installed version does not satisfy; the order of the
  request is kept. The code decides "absent from the map" and "a range was given" by the
  truthiness of \<open>ownDependencies[dep]\<close> and \<open>versions[dep]\<close>, and departs from the claim in
  two ways. First, \<open>foo\<close> is installed, is a key of \<open>devDependencies\<close> (with the empty string
  as its version) and has no required range, and is in the result. Second, \<open>valueOf\<close> is
  installed, declared and has no required range, and the call throws instead of leaving
  it out, as \<open>versions['valueOf']\<close> is a function inherited from \<open>Object.prototype\<close>.
\<close>

theorem getUnsatisfiedDeps_membership_by_truthiness:
  "getUnsatisfiedDeps
      \<lparr> validRange = (\<lambda>r. True), satisfies = (\<lambda>v r. True) \<rparr>
      \<lparr> manifest_get = (\<lambda>k. if k = ''devDependencies'' then Some [''foo'' \<mapsto> ''''] else None),
        module_version = [''foo'' \<mapsto> ''1.0.0''],
        yarn_lock = False \<rparr>
      [''foo''] Map.empty True = Inr [''foo'']
   \<and> getInstalledVersion
      \<lparr> manifest_get = (\<lambda>k. if k = ''devDependencies'' then Some [''foo'' \<mapsto> ''''] else None),
        module_version = [''foo'' \<mapsto> ''1.0.0''],
        yarn_lock = False \<rparr> ''foo'' = Some ''1.0.0''
   \<and> ''foo'' \<in> dom (getOwnDependencies
      \<lparr> manifest_get = (\<lambda>k. if k = ''devDependencies'' then Some [''foo'' \<mapsto> ''''] else None),
        module_version = [''foo'' \<mapsto> ''1.0.0''],
        yarn_lock = False \<rparr> True)
   \<and> getUnsatisfiedDeps
      \<lparr> validRange = (\<lambda>r. True), satisfies = (\<lambda>v r. True) \<rparr>
      \<lparr> manifest_get = (\<lambda>k. if k = ''devDependencies'' then Some [''valueOf'' \<mapsto> ''^1.0.0''] else None),
        module_version = [''valueOf'' \<mapsto> ''1.0.0''],
        yarn_lock = False \<rparr>
      [''valueOf''] Map.empty True
     = Inl (MrmError
        ''Invalid npm version: function valueOf() { [native code] }. Use proper semver range syntax.'')"
  by (simp add: getUnsatisfiedDeps_def unsatisfied_def getInstalledVersion_def
      getOwnDependencies_def get_prop_def object_prototype_def)

section \<open>Invalid ranges (C2)\<close>

text \<open>
  C2, as stated: an install call with a requested package whose non-empty range is not a
  valid semver range fails with the message
  \<open>Invalid version: <range>. Use proper semver range syntax.\<close> and runs no command.
  The message the code builds starts with \<open>Invalid npm version: \<close>.
\<close>

theorem install_invalid_message_counterexample:
  "install \<lparr> validRange = (\<lambda>r. False), satisfies = (\<lambda>v r. False) \<rparr>
        \<lparr> manifest_get = (\<lambda>k. None), module_version = Map.empty, yarn_lock = False \<rparr>
        (DepObject [(''lodash'', ''four'')])
        \<lparr> opt_dev = None, opt_yarn = False, opt_versions = None \<rparr>
      = Inl (MrmError ''Invalid npm version: four. Use proper semver range syntax.'')
   \<and> install \<lparr> validRange = (\<lambda>r. False), satisfies = (\<lambda>v r. False) \<rparr>
        \<lparr> manifest_get = (\<lambda>k. None), module_version = Map.empty, yarn_lock = False \<rparr>
        (DepObject [(''lodash'', ''four'')])
        \<lparr> opt_dev = None, opt_yarn = False, opt_versions = None \<rparr>
      \<noteq> Inl (MrmError ''Invalid version: four. Use proper semver range syntax.'')"
  by (simp add: install_def getUnsatisfiedDeps_def unsatisfied_def get_prop_def)

text \<open>
  C2, amended: an install call in which some requested package has a non-empty required
  range that \<open>validRange\<close> rejects throws an \<open>MrmError\<close> whose message is
  \<open>Invalid npm version: <value>. Use proper semver range syntax.\<close>; the call ends there,
  so it hands no command to the runner. When every requested name without an entry in the
  version mapping is no member name of \<open>Object.prototype\<close>, \<open><value>\<close> is the range of the
  first requested package, in request order, whose non-empty range is rejected.
\<close>

theorem install_invalid_range:
  assumes "dep \<in> set (dependencies_of deps)"
    and "versions_of deps opts dep = Some r" and "r \<noteq> []"
    and "\<not> validRange sv r"
  shows "(\<exists>x. install sv p deps opts =
              Inl (MrmError (''Invalid npm version: '' @ x @ ''. Use proper semver range syntax.'')))
       \<and> (\<forall>c. install sv p deps opts \<noteq> Inr (Some c))
       \<and> ((\<forall>d\<in>set (dependencies_of deps).
              versions_of deps opts d = None \<longrightarrow> map_of object_prototype d = None) \<longrightarrow>
           (\<exists>bad x. find (\<lambda>d. \<exists>r. versions_of deps opts d = Some r \<and> r \<noteq> [] \<and> \<not> validRange sv r)
                       (dependencies_of deps) = Some bad
                  \<and> versions_of deps opts bad = Some x
                  \<and> install sv p deps opts =
                      Inl (MrmError (''Invalid npm version: '' @ x
                                     @ ''. Use proper semver range syntax.''))))"
proof -
  let ?vs = "versions_of deps opts" and ?ds = "dependencies_of deps"
  let ?throws = "\<lambda>d. truthy (get_prop ?vs d) \<and> \<not> semver_validRange sv (get_prop ?vs d)"
  let ?invalid = "\<lambda>d. \<exists>r. ?vs d = Some r \<and> r \<noteq> [] \<and> \<not> validRange sv r"
  from assms have "?throws dep" by (simp add: get_prop_own)
  with assms(1) obtain bad where bad: "find ?throws ?ds = Some bad"
    using find_exists [of dep ?ds ?throws] by blast
  have inst: "install sv p deps opts =
      Inl (MrmError (''Invalid npm version: '' @ str (get_prop ?vs bad)
                     @ ''. Use proper semver range syntax.''))"
    by (simp add: install_def Let_def getUnsatisfiedDeps_first_invalid [OF bad])
  have plain: "\<exists>bad x. find ?invalid ?ds = Some bad \<and> ?vs bad = Some x
                  \<and> install sv p deps opts =
                      Inl (MrmError (''Invalid npm version: '' @ x
                                     @ ''. Use proper semver range syntax.''))"
    if side: "\<forall>d\<in>set ?ds. ?vs d = None \<longrightarrow> map_of object_prototype d = None"
  proof -
    have same: "?throws d = ?invalid d" if "d \<in> set ?ds" for d
    proof (cases "?vs d")
      case None
      with side that have "get_prop ?vs d = Undefined"
        by (simp add: get_prop_plain)
      with None show ?thesis by simp
    next
      case (Some r)
      then show ?thesis by (simp add: get_prop_own)
    qed
    then have "find ?invalid ?ds = find ?throws ?ds"
      by (intro find_cong_set) simp
    with bad have f: "find ?invalid ?ds = Some bad" by simp
    then have "?invalid bad" by (auto simp: find_Some_iff)
    then obtain x where x: "?vs bad = Some x" by blast
    with inst have "install sv p deps opts =
        Inl (MrmError (''Invalid npm version: '' @ x @ ''. Use proper semver range syntax.''))"
      by (simp add: get_prop_own)
    with f x show ?thesis by blast
  qed
  from inst plain show ?thesis by auto
qed

theorem install_invalid_range_witness:
  "''b'' \<in> set (dependencies_of (DepObject [(''a'', ''^1.0.0''), (''b'', ''one''), (''c'', ''two'')]))
   \<and> install \<lparr> validRange = (\<lambda>r. r = ''^1.0.0''), satisfies = (\<lambda>v r. False) \<rparr>
        \<lparr> manifest_get = (\<lambda>k. None), module_version = Map.empty, yarn_lock = False \<rparr>
        (DepObject [(''a'', ''^1.0.0''), (''b'', ''one''), (''c'', ''two'')])
        \<lparr> opt_dev = None, opt_yarn = False, opt_versions = None \<rparr>
      = Inl (MrmError ''Invalid npm version: one. Use proper semver range syntax.'')"
  using install_invalid_range [where dep = "''b''"
      and deps = "DepObject [(''a'', ''^1.0.0''), (''b'', ''one''), (''c'', ''two'')]"
      and opts = "\<lparr> opt_dev = None, opt_yarn = False, opt_versions = None \<rparr>" and r = "''one''"
      and sv = "\<lparr> validRange = (\<lambda>r. r = ''^1.0.0''), satisfies = (\<lambda>v r. False) \<rparr>"
      and p = "\<lparr> manifest_get = (\<lambda>k. None), module_version = Map.empty, yarn_lock = False \<rparr>"]
  by (simp add: install_def getUnsatisfiedDeps_def unsatisfied_def get_prop_def)

section \<open>Nothing to do (C3)\<close>

text \<open>
  C3: when every requested package is declared in the active manifest section and its
  installed version satisfies its range (or no range is given), the unsatisfied set is
  empty and \<open>install\<close> runs no command, so repeating the call does nothing. The code
  departs from it where \<open>ownDependencies[dep]\<close> or \<open>versions[dep]\<close> is not what a
  membership test gives. \<open>chalk\<close> is a key of \<open>devDependencies\<close> (with the empty string as
  its version), is installed and has no range, and \<open>install('chalk')\<close> runs
  \<open>npm install --save-dev chalk@latest\<close>. \<open>constructor\<close> is declared, installed and has no
  range, and \<open>install('constructor')\<close> throws, as \<open>versions['constructor']\<close> is the
  inherited \<open>Object\<close> function.
\<close>

theorem install_declared_package_not_skipped:
  "install
      \<lparr> validRange = (\<lambda>r. True), satisfies = (\<lambda>v r. True) \<rparr>
      \<lparr> manifest_get = (\<lambda>k. if k = ''devDependencies'' then Some [''chalk'' \<mapsto> ''''] else None),
        module_version = [''chalk'' \<mapsto> ''4.1.2''],
        yarn_lock = False \<rparr>
      (DepString ''chalk'')
      \<lparr> opt_dev = None, opt_yarn = False, opt_versions = None \<rparr>
     = Inr (Some \<lparr> program = ''npm'', args = [''install'', ''--save-dev'', ''chalk@latest''],
                   stdio = ''inherit'', cwd = None \<rparr>)
   \<and> ''chalk'' \<in> dom (getOwnDependencies
      \<lparr> manifest_get = (\<lambda>k. if k = ''devDependencies'' then Some [''chalk'' \<mapsto> ''''] else None),
        module_version = [''chalk'' \<mapsto> ''4.1.2''],
        yarn_lock = False \<rparr> True)
   \<and> getInstalledVersion
      \<lparr> manifest_get = (\<lambda>k. if k = ''devDependencies'' then Some [''chalk'' \<mapsto> ''''] else None),
        module_version = [''chalk'' \<mapsto> ''4.1.2''],
        yarn_lock = False \<rparr> ''chalk'' = Some ''4.1.2''
   \<and> install
      \<lparr> validRange = (\<lambda>r. True), satisfies = (\<lambda>v r. True) \<rparr>
      \<lparr> manifest_get = (\<lambda>k. if k = ''devDependencies''
           then Some [''constructor'' \<mapsto> ''^1.0.0''] else None),
        module_version = [''constructor'' \<mapsto> ''1.0.0''],
        yarn_lock = False \<rparr>
      (DepString ''constructor'')
      \<lparr> opt_dev = None, opt_yarn = False, opt_versions = None \<rparr>
     = Inl (MrmError
        ''Invalid npm version: function Object() { [native code] }. Use proper semver range syntax.'')"
  by (simp add: install_def getUnsatisfiedDeps_def unsatisfied_def getInstalledVersion_def
      getOwnDependencies_def getVersionedDep_def select_run_def isUsingYarn_def runNpm_def
      get_prop_def object_prototype_def)

section \<open>The removable set (C4)\<close>

text \<open>
  C4: the packages \<open>uninstall\<close> removes are exactly the requested names that are keys of the
  dependency map of the active section, in request order; a name that is not declared is
  skipped, and nothing is run when no name is left. The code keeps a name when
  \<open>installed[dep]\<close> is truthy, which is not the membership test, and departs from the claim
  both ways. \<open>left-pad\<close> is a key of \<open>devDependencies\<close> (with the empty string as its
  version), and \<open>uninstall(['left-pad'])\<close> runs nothing. \<open>constructor\<close> is no key of the empty
  \<open>devDependencies\<close>, and \<open>uninstall('constructor')\<close> runs
  \<open>npm uninstall --save-dev constructor\<close>, as \<open>installed['constructor']\<close> is the inherited
  \<open>Object\<close> function.
\<close>

theorem uninstall_membership_by_truthiness:
  "uninstall
     \<lparr> manifest_get = (\<lambda>k. if k = ''devDependencies'' then Some [''left-pad'' \<mapsto> ''''] else None),
       module_version = [''left-pad'' \<mapsto> ''1.3.0''], yarn_lock = False \<rparr>
     (NameArray [''left-pad''])
     \<lparr> opt_dev = None, opt_yarn = False, opt_versions = None \<rparr> = None
   \<and> removable
     \<lparr> manifest_get = (\<lambda>k. if k = ''devDependencies'' then Some [''left-pad'' \<mapsto> ''''] else None),
       module_version = [''left-pad'' \<mapsto> ''1.3.0''], yarn_lock = False \<rparr>
     (NameArray [''left-pad''])
     \<lparr> opt_dev = None, opt_yarn = False, opt_versions = None \<rparr> = []
   \<and> ''left-pad'' \<in> dom (getOwnDependencies
     \<lparr> manifest_get = (\<lambda>k. if k = ''devDependencies'' then Some [''left-pad'' \<mapsto> ''''] else None),
       module_version = [''left-pad'' \<mapsto> ''1.3.0''], yarn_lock = False \<rparr> True)
   \<and> uninstall
     \<lparr> manifest_get = (\<lambda>k. if k = ''devDependencies'' then Some Map.empty else None),
       module_version = Map.empty, yarn_lock = False \<rparr>
     (OneName ''constructor'')
     \<lparr> opt_dev = None, opt_yarn = False, opt_versions = None \<rparr>
    = Some \<lparr> program = ''npm'', args = [''uninstall'', ''--save-dev'', ''constructor''],
             stdio = ''inherit'', cwd = None \<rparr>
   \<and> ''constructor'' \<notin> dom (getOwnDependencies
     \<lparr> manifest_get = (\<lambda>k. if k = ''devDependencies'' then Some Map.empty else None),
       module_version = Map.empty, yarn_lock = False \<rparr> True)"
  by (simp add: uninstall_def removable_def getOwnDependencies_def get_prop_def
      object_prototype_def select_run_def isUsingYarn_def runNpm_def)

section \<open>The backend (C5)\<close>

text \<open>
  C5: \<open>install\<close> and \<open>uninstall\<close> choose the backend once per call: yarn when the \<open>yarn\<close>
  option is set or \<open>yarn.lock\<close> exists, npm otherwise. The one command of the call carries
  every package of the call; on yarn it starts with \<open>add\<close> (install) or \<open>remove\<close>
  (uninstall), on npm with \<open>install\<close> or \<open>uninstall\<close>.
\<close>

theorem backend_choice:
  "isUsingYarn p = yarn_lock p
   \<and> (install sv p deps opts = Inr (Some c) \<longrightarrow>
        (\<exists>newDeps. getUnsatisfiedDeps sv p (dependencies_of deps) (versions_of deps opts)
                      (opt_dev opts \<noteq> Some False) = Inr newDeps
         \<and> (if opt_yarn opts \<or> isUsingYarn p
            then program c = ''yarn''
               \<and> args c = (if opt_dev opts \<noteq> Some False then [''add'', ''--dev''] else [''add''])
                          @ map (\<lambda>dep. getVersionedDep dep (versions_of deps opts)) newDeps
            else program c = ''npm''
               \<and> args c = [''install'', if opt_dev opts \<noteq> Some False then ''--save-dev'' else ''--save'']
                          @ map (\<lambda>dep. getVersionedDep dep (versions_of deps opts)) newDeps)))
   \<and> (uninstall p names opts = Some c' \<longrightarrow>
        (if opt_yarn opts \<or> isUsingYarn p
         then program c' = ''yarn'' \<and> args c' = [''remove''] @ removable p names opts
         else program c' = ''npm''
            \<and> args c' = [''uninstall'', if opt_dev opts \<noteq> Some False then ''--save-dev'' else ''--save'']
                         @ removable p names opts))"
proof (intro conjI impI)
  show "isUsingYarn p = yarn_lock p" by (simp add: isUsingYarn_def)
next
  assume c: "install sv p deps opts = Inr (Some c)"
  then obtain newDeps where
    nd: "getUnsatisfiedDeps sv p (dependencies_of deps) (versions_of deps opts)
           (opt_dev opts \<noteq> Some False) = Inr newDeps" "newDeps \<noteq> []"
    using install_Some_D by blast
  from c nd show "\<exists>newDeps. getUnsatisfiedDeps sv p (dependencies_of deps) (versions_of deps opts)
                      (opt_dev opts \<noteq> Some False) = Inr newDeps
         \<and> (if opt_yarn opts \<or> isUsingYarn p
            then program c = ''yarn''
               \<and> args c = (if opt_dev opts \<noteq> Some False then [''add'', ''--dev''] else [''add''])
                          @ map (\<lambda>dep. getVersionedDep dep (versions_of deps opts)) newDeps
            else program c = ''npm''
               \<and> args c = [''install'', if opt_dev opts \<noteq> Some False then ''--save-dev'' else ''--save'']
                          @ map (\<lambda>dep. getVersionedDep dep (versions_of deps opts)) newDeps)"
    by (auto simp: install_command [OF nd(1)])
next
  assume "uninstall p names opts = Some c'"
  then show "if opt_yarn opts \<or> isUsingYarn p
         then program c' = ''yarn'' \<and> args c' = [''remove''] @ removable p names opts
         else program c' = ''npm''
            \<and> args c' = [''uninstall'', if opt_dev opts \<noteq> Some False then ''--save-dev'' else ''--save'']
                         @ removable p names opts"
    by (auto simp: uninstall_command split: if_splits)
qed

theorem backend_choice_witness:
  "install \<lparr> validRange = (\<lambda>r. True), satisfies = (\<lambda>v r. True) \<rparr>
      \<lparr> manifest_get = (\<lambda>k. if k = ''devDependencies'' then Some [''jest'' \<mapsto> ''^29.0.0''] else None),
        module_version = Map.empty, yarn_lock = True \<rparr>
      (DepArray [''eslint'', ''prettier''])
      \<lparr> opt_dev = None, opt_yarn = False, opt_versions = None \<rparr>
    = Inr (Some \<lparr> program = ''yarn'', args = [''add'', ''--dev'', ''eslint@latest'', ''prettier@latest''],
                  stdio = ''inherit'', cwd = None \<rparr>)
   \<and> uninstall
      \<lparr> manifest_get = (\<lambda>k. if k = ''devDependencies'' then Some [''jest'' \<mapsto> ''^29.0.0''] else None),
        module_version = Map.empty, yarn_lock = True \<rparr>
      (OneName ''jest'')
      \<lparr> opt_dev = None, opt_yarn = False, opt_versions = None \<rparr>
    = Some \<lparr> program = ''yarn'', args = [''remove'', ''jest''], stdio = ''inherit'', cwd = None \<rparr>"
  using backend_choice [where
      sv = "\<lparr> validRange = (\<lambda>r. True), satisfies = (\<lambda>v r. True) \<rparr>"
      and p = "\<lparr> manifest_get = (\<lambda>k. if k = ''devDependencies'' then Some [''jest'' \<mapsto> ''^29.0.0''] else None),
        module_version = Map.empty, yarn_lock = True \<rparr>"
      and deps = "DepArray [''eslint'', ''prettier'']"
      and opts = "\<lparr> opt_dev = None, opt_yarn = False, opt_versions = None \<rparr>"
      and names = "OneName ''jest''"
      and c = "\<lparr> program = ''yarn'', args = [''add'', ''--dev'', ''eslint@latest'', ''prettier@latest''],
                  stdio = ''inherit'', cwd = None \<rparr>"
      and c' = "\<lparr> program = ''yarn'', args = [''remove'', ''jest''], stdio = ''inherit'', cwd = None \<rparr>"]
  by (simp add: install_def uninstall_def removable_def getUnsatisfiedDeps_def unsatisfied_def get_prop_def object_prototype_def
      getInstalledVersion_def getOwnDependencies_def getVersionedDep_def select_run_def
      isUsingYarn_def runYarn_def)

section \<open>The dev flag (C6)\<close>

text \<open>
  C6, as stated: the dev-scope flag is emitted for install/add only and not for
  remove/uninstall, on both backends. On npm the flag is emitted for \<open>uninstall\<close> too:
  \<open>uninstall('lodash')\<close> runs \<open>npm uninstall --save-dev lodash\<close>, and with \<open>dev: false\<close> it
  runs \<open>npm uninstall --save lodash\<close>.
\<close>

theorem npm_uninstall_flag_counterexample:
  "uninstall
     \<lparr> manifest_get = (\<lambda>k. if k = ''devDependencies'' then Some [''lodash'' \<mapsto> ''^4.0.0''] else None),
       module_version = Map.empty, yarn_lock = False \<rparr>
     (OneName ''lodash'')
     \<lparr> opt_dev = Some True, opt_yarn = False, opt_versions = None \<rparr>
   = Some \<lparr> program = ''npm'', args = [''uninstall'', ''--save-dev'', ''lodash''],
            stdio = ''inherit'', cwd = None \<rparr>
   \<and> uninstall
     \<lparr> manifest_get = (\<lambda>k. if k = ''dependencies'' then Some [''lodash'' \<mapsto> ''^4.0.0''] else None),
       module_version = Map.empty, yarn_lock = False \<rparr>
     (OneName ''lodash'')
     \<lparr> opt_dev = Some False, opt_yarn = False, opt_versions = None \<rparr>
   = Some \<lparr> program = ''npm'', args = [''uninstall'', ''--save'', ''lodash''],
            stdio = ''inherit'', cwd = None \<rparr>"
  by (simp add: uninstall_def removable_def get_prop_def object_prototype_def getOwnDependencies_def select_run_def
      isUsingYarn_def runNpm_def)

text \<open>
  C6, amended: the argument list of a command is the action verb, then the dev-scope flag,
  then the packages in order. On yarn the flag is \<open>--dev\<close>, emitted for \<open>add\<close> when \<open>dev\<close> is
  set, and \<open>remove\<close> takes no flag whatever \<open>dev\<close> is. On npm the flag is \<open>--save-dev\<close> when
  \<open>dev\<close> is set and \<open>--save\<close> otherwise, and it is emitted for \<open>install\<close> and for \<open>uninstall\<close>.
\<close>

theorem command_arguments:
  "args (runYarn deps \<lparr> run_dev = d, run_remove = True, run_stdio = s, run_cwd = w \<rparr>)
     = [''remove''] @ deps
   \<and> args (runYarn deps \<lparr> run_dev = d, run_remove = False, run_stdio = s, run_cwd = w \<rparr>)
     = (if d then [''add'', ''--dev''] else [''add'']) @ deps
   \<and> args (runNpm deps \<lparr> run_dev = d, run_remove = r, run_stdio = s, run_cwd = w \<rparr>)
     = [if r then ''uninstall'' else ''install'', if d then ''--save-dev'' else ''--save''] @ deps"
  by (simp add: runYarn_def runNpm_def)

theorem command_arguments_witness:
  "args (runYarn [''a'', ''b''] \<lparr> run_dev = True, run_remove = True, run_stdio = None, run_cwd = None \<rparr>)
     = [''remove'', ''a'', ''b'']
   \<and> args (runYarn [''a'', ''b''] \<lparr> run_dev = True, run_remove = False, run_stdio = None, run_cwd = None \<rparr>)
     = [''add'', ''--dev'', ''a'', ''b'']
   \<and> args (runNpm [''a'', ''b''] \<lparr> run_dev = False, run_remove = True, run_stdio = None, run_cwd = None \<rparr>)
     = [''uninstall'', ''--save'', ''a'', ''b'']"
  using command_arguments [where deps = "[''a'', ''b'']" and d = True and r = True
        and s = None and w = None]
    command_arguments [where deps = "[''a'', ''b'']" and d = False and r = True
        and s = None and w = None]
  by simp

section \<open>Versioned package arguments (C7)\<close>

text \<open>
  C7: every package of the unsatisfied set is passed to the backend as its name followed by
  \<open>@<range>\<close> when the version mapping has a range for it (a non-empty entry; the empty
  entry is the subject of C10), and by \<open>@latest\<close> otherwise. In particular
  \<open>install({ lodash: '^4.0.0' })\<close> with no \<open>lodash\<close> installed (and \<open>^4.0.0\<close> a valid range)
  has the unsatisfied set \<open>['lodash']\<close> and an argument list containing \<open>lodash@^4.0.0\<close>.
\<close>

theorem install_versioned_arguments:
  "(install sv p deps opts = Inr (Some c) \<longrightarrow>
      (\<exists>flags newDeps.
          getUnsatisfiedDeps sv p (dependencies_of deps) (versions_of deps opts)
            (opt_dev opts \<noteq> Some False) = Inr newDeps
        \<and> args c = flags @ map (\<lambda>dep. dep @ ''@'' @
                     (case versions_of deps opts dep of
                        None \<Rightarrow> ''latest''
                      | Some r \<Rightarrow> if r = [] then ''latest'' else r)) newDeps))
   \<and> (validRange sv ''^4.0.0'' \<and> getInstalledVersion p ''lodash'' = None \<longrightarrow>
        getUnsatisfiedDeps sv p (dependencies_of (DepObject [(''lodash'', ''^4.0.0'')]))
          (versions_of (DepObject [(''lodash'', ''^4.0.0'')]) opts)
          (opt_dev opts \<noteq> Some False) = Inr [''lodash'']
      \<and> (\<exists>c. install sv p (DepObject [(''lodash'', ''^4.0.0'')]) opts = Inr (Some c)
             \<and> ''lodash@^4.0.0'' \<in> set (args c)))"
proof (intro conjI impI)
  assume c: "install sv p deps opts = Inr (Some c)"
  then obtain newDeps where
    nd: "getUnsatisfiedDeps sv p (dependencies_of deps) (versions_of deps opts)
           (opt_dev opts \<noteq> Some False) = Inr newDeps" "newDeps \<noteq> []"
    using install_Some_D by blast
  have "map (\<lambda>dep. getVersionedDep dep (versions_of deps opts)) newDeps =
      map (\<lambda>dep. dep @ ''@'' @
                     (case versions_of deps opts dep of
                        None \<Rightarrow> ''latest''
                      | Some r \<Rightarrow> if r = [] then ''latest'' else r)) newDeps"
    by (intro map_cong refl getVersionedDep_suffix [where sv = sv] kept_not_thrown [OF nd(1)])
  with c nd show "\<exists>flags newDeps.
          getUnsatisfiedDeps sv p (dependencies_of deps) (versions_of deps opts)
            (opt_dev opts \<noteq> Some False) = Inr newDeps
        \<and> args c = flags @ map (\<lambda>dep. dep @ ''@'' @
                     (case versions_of deps opts dep of
                        None \<Rightarrow> ''latest''
                      | Some r \<Rightarrow> if r = [] then ''latest'' else r)) newDeps"
    by (auto simp: install_command [OF nd(1)] split: if_splits)
next
  assume a: "validRange sv ''^4.0.0'' \<and> getInstalledVersion p ''lodash'' = None"
  let ?deps = "DepObject [(''lodash'', ''^4.0.0'')]"
  from a have u: "getUnsatisfiedDeps sv p (dependencies_of ?deps) (versions_of ?deps opts)
          (opt_dev opts \<noteq> Some False) = Inr [''lodash'']"
    by (simp add: getUnsatisfiedDeps_def unsatisfied_def get_prop_def)
  then show "getUnsatisfiedDeps sv p (dependencies_of ?deps) (versions_of ?deps opts)
          (opt_dev opts \<noteq> Some False) = Inr [''lodash'']" .
  show "\<exists>c. install sv p ?deps opts = Inr (Some c) \<and> ''lodash@^4.0.0'' \<in> set (args c)"
    by (simp add: install_command [OF u] getVersionedDep_def get_prop_def)
qed

theorem install_versioned_arguments_witness:
  "install \<lparr> validRange = (\<lambda>r. r = ''^4.0.0''), satisfies = (\<lambda>v r. False) \<rparr>
      \<lparr> manifest_get = (\<lambda>k. None), module_version = Map.empty, yarn_lock = False \<rparr>
      (DepObject [(''lodash'', ''^4.0.0'')])
      \<lparr> opt_dev = None, opt_yarn = False, opt_versions = None \<rparr>
    = Inr (Some \<lparr> program = ''npm'', args = [''install'', ''--save-dev'', ''lodash@^4.0.0''],
                  stdio = ''inherit'', cwd = None \<rparr>)
   \<and> getUnsatisfiedDeps \<lparr> validRange = (\<lambda>r. r = ''^4.0.0''), satisfies = (\<lambda>v r. False) \<rparr>
      \<lparr> manifest_get = (\<lambda>k. None), module_version = Map.empty, yarn_lock = False \<rparr>
      [''lodash''] [''lodash'' \<mapsto> ''^4.0.0''] True = Inr [''lodash'']"
  using install_versioned_arguments [where
      sv = "\<lparr> validRange = (\<lambda>r. r = ''^4.0.0''), satisfies = (\<lambda>v r. False) \<rparr>"
      and p = "\<lparr> manifest_get = (\<lambda>k. None), module_version = Map.empty, yarn_lock = False \<rparr>"
      and deps = "DepObject [(''lodash'', ''^4.0.0'')]"
      and opts = "\<lparr> opt_dev = None, opt_yarn = False, opt_versions = None \<rparr>"
      and c = "\<lparr> program = ''npm'', args = [''install'', ''--save-dev'', ''lodash@^4.0.0''],
                  stdio = ''inherit'', cwd = None \<rparr>"]
  by (simp add: getInstalledVersion_def install_def select_run_def isUsingYarn_def runNpm_def
      getVersionedDep_def getUnsatisfiedDeps_def unsatisfied_def get_prop_def)

section \<open>Duplicate names (C8)\<close>

text \<open>
  C8, as stated: the request is normalised to unique package names, so that no name appears
  twice in the computed action sequence or in the package list of the command. The code
  does not remove duplicates from an array of names: \<open>install(['a', 'a'])\<close> with \<open>a\<close> not
  installed has the action sequence \<open>['a', 'a']\<close> and runs
  \<open>npm install --save-dev a@latest a@latest\<close>.
\<close>

theorem install_duplicates_counterexample:
  "install \<lparr> validRange = (\<lambda>r. True), satisfies = (\<lambda>v r. True) \<rparr>
      \<lparr> manifest_get = (\<lambda>k. None), module_version = Map.empty, yarn_lock = False \<rparr>
      (DepArray [''a'', ''a''])
      \<lparr> opt_dev = None, opt_yarn = False, opt_versions = None \<rparr>
    = Inr (Some \<lparr> program = ''npm'', args = [''install'', ''--save-dev'', ''a@latest'', ''a@latest''],
                  stdio = ''inherit'', cwd = None \<rparr>)
   \<and> getUnsatisfiedDeps \<lparr> validRange = (\<lambda>r. True), satisfies = (\<lambda>v r. True) \<rparr>
      \<lparr> manifest_get = (\<lambda>k. None), module_version = Map.empty, yarn_lock = False \<rparr>
      (dependencies_of (DepArray [''a'', ''a''])) Map.empty True = Inr [''a'', ''a'']
   \<and> \<not> distinct [''a'', ''a'']"
  by (simp add: install_def getUnsatisfiedDeps_def unsatisfied_def get_prop_def object_prototype_def getInstalledVersion_def
      getVersionedDep_def select_run_def isUsingYarn_def runNpm_def)

text \<open>
  C8, amended: the request is turned into a list of names without removing duplicates: a
  single name gives a one-element list, an array of names is taken as it is, a mapping
  gives its keys. The computed action sequence is that list filtered, so it has no
  duplicates whenever the requested names have none, and the package list of the command
  has one argument for each entry of the action sequence, in the same order.
\<close>

theorem install_keeps_request_shape:
  "dependencies_of (DepString s) = [s]
   \<and> dependencies_of (DepArray l) = l
   \<and> dependencies_of (DepObject m) = map fst m
   \<and> versions_of (DepObject m) opts = map_of m
   \<and> (getUnsatisfiedDeps sv p (dependencies_of deps) (versions_of deps opts) dev = Inr newDeps \<longrightarrow>
        (\<exists>keep. newDeps = filter keep (dependencies_of deps))
      \<and> (distinct (dependencies_of deps) \<longrightarrow> distinct newDeps))
   \<and> (install sv p deps opts = Inr (Some c) \<longrightarrow>
        (\<exists>flags newDeps.
            getUnsatisfiedDeps sv p (dependencies_of deps) (versions_of deps opts)
              (opt_dev opts \<noteq> Some False) = Inr newDeps
          \<and> args c = flags @ map (\<lambda>dep. getVersionedDep dep (versions_of deps opts)) newDeps))"
proof (intro conjI impI)
  assume "getUnsatisfiedDeps sv p (dependencies_of deps) (versions_of deps opts) dev = Inr newDeps"
  then have nd: "newDeps = filter (\<lambda>dep. unsatisfied sv p (versions_of deps opts)
                     (getOwnDependencies p dev) dep = Inr True) (dependencies_of deps)"
    unfolding getUnsatisfiedDeps_def Let_def by (rule filter_throw_Inr)
  then show "\<exists>keep. newDeps = filter keep (dependencies_of deps)" by blast
  assume "distinct (dependencies_of deps)"
  with nd show "distinct newDeps" by simp
next
  assume c: "install sv p deps opts = Inr (Some c)"
  then obtain newDeps where
    nd: "getUnsatisfiedDeps sv p (dependencies_of deps) (versions_of deps opts)
           (opt_dev opts \<noteq> Some False) = Inr newDeps" "newDeps \<noteq> []"
    using install_Some_D by blast
  with c show "\<exists>flags newDeps.
            getUnsatisfiedDeps sv p (dependencies_of deps) (versions_of deps opts)
              (opt_dev opts \<noteq> Some False) = Inr newDeps
          \<and> args c = flags @ map (\<lambda>dep. getVersionedDep dep (versions_of deps opts)) newDeps"
    by (auto simp: install_command [OF nd(1)] split: if_splits)
qed simp_all

theorem install_keeps_request_shape_witness:
  "getUnsatisfiedDeps \<lparr> validRange = (\<lambda>r. True), satisfies = (\<lambda>v r. True) \<rparr>
      \<lparr> manifest_get = (\<lambda>k. if k = ''devDependencies'' then Some [''b'' \<mapsto> ''^2.0.0''] else None),
        module_version = [''b'' \<mapsto> ''2.0.1''], yarn_lock = False \<rparr>
      (dependencies_of (DepArray [''a'', ''b'', ''c'']))
      (versions_of (DepArray [''a'', ''b'', ''c''])
         \<lparr> opt_dev = None, opt_yarn = False, opt_versions = None \<rparr>) True
    = Inr [''a'', ''c'']
   \<and> distinct [''a'', ''c'']"
  using install_keeps_request_shape [where
      sv = "\<lparr> validRange = (\<lambda>r. True), satisfies = (\<lambda>v r. True) \<rparr>"
      and p = "\<lparr> manifest_get = (\<lambda>k. if k = ''devDependencies'' then Some [''b'' \<mapsto> ''^2.0.0''] else None),
        module_version = [''b'' \<mapsto> ''2.0.1''], yarn_lock = False \<rparr>"
      and deps = "DepArray [''a'', ''b'', ''c'']"
      and opts = "\<lparr> opt_dev = None, opt_yarn = False, opt_versions = None \<rparr>"
      and dev = True
      and newDeps = "[''a'', ''c'']"]
  by (simp add: getUnsatisfiedDeps_def unsatisfied_def get_prop_def object_prototype_def getInstalledVersion_def
      getOwnDependencies_def)

section \<open>A mapping as the request (C9)\<close>

text \<open>
  C9: when \<open>deps\<close> is a mapping from names to ranges, \<open>options.versions\<close> is ignored: the
  result of \<open>install\<close> does not depend on it, the version mapping used for validation,
  satisfaction and suffixes is the \<open>deps\<close> mapping itself, and the requested packages are
  its keys.
\<close>

theorem install_object_ignores_versions:
  "install sv p (DepObject m) (opts\<lparr>opt_versions := v\<rparr>) = install sv p (DepObject m) opts
   \<and> versions_of (DepObject m) opts = map_of m
   \<and> dependencies_of (DepObject m) = map fst m
   \<and> install sv p (DepObject m) opts =
       (case getUnsatisfiedDeps sv p (map fst m) (map_of m) (opt_dev opts \<noteq> Some False) of
          Inl e \<Rightarrow> Inl e
        | Inr newDeps \<Rightarrow>
            if newDeps = [] then Inr None
            else Inr (Some (select_run p opts (map (\<lambda>dep. getVersionedDep dep (map_of m)) newDeps)
                   \<lparr> run_dev = (opt_dev opts \<noteq> Some False), run_remove = False,
                     run_stdio = None, run_cwd = None \<rparr>)))"
  by (simp add: install_def select_run_def Let_def split: sum.splits)

theorem install_object_ignores_versions_witness:
  "install \<lparr> validRange = (\<lambda>r. r = ''^4.0.0''), satisfies = (\<lambda>v r. False) \<rparr>
      \<lparr> manifest_get = (\<lambda>k. None), module_version = Map.empty, yarn_lock = False \<rparr>
      (DepObject [(''lodash'', ''^4.0.0'')])
      \<lparr> opt_dev = None, opt_yarn = False, opt_versions = Some [''lodash'' \<mapsto> ''bad'', ''x'' \<mapsto> ''1''] \<rparr>
    = Inr (Some \<lparr> program = ''npm'', args = [''install'', ''--save-dev'', ''lodash@^4.0.0''],
                  stdio = ''inherit'', cwd = None \<rparr>)"
  using install_object_ignores_versions [where
      sv = "\<lparr> validRange = (\<lambda>r. r = ''^4.0.0''), satisfies = (\<lambda>v r. False) \<rparr>"
      and p = "\<lparr> manifest_get = (\<lambda>k. None), module_version = Map.empty, yarn_lock = False \<rparr>"
      and m = "[(''lodash'', ''^4.0.0'')]"
      and opts = "\<lparr> opt_dev = None, opt_yarn = False, opt_versions = None \<rparr>"
      and v = "Some [''lodash'' \<mapsto> ''bad'', ''x'' \<mapsto> ''1'']"]
  by (simp add: getUnsatisfiedDeps_def unsatisfied_def get_prop_def object_prototype_def getInstalledVersion_def
      getVersionedDep_def select_run_def isUsingYarn_def runNpm_def)

section \<open>The empty range (C10)\<close>

text \<open>
  C10: a requested package whose entry in the version mapping is the empty string raises
  no error, is treated as having no required range, so that it is included only if it is
  not installed or not declared, and gets the suffix \<open>@latest\<close> when it is included. The
  code raises no error and builds \<open>react@latest\<close> below, but includes the package although
  it is installed and declared: \<open>react\<close> is a key of \<open>dependencies\<close> with the empty string
  as its version, which \<open>ownDependencies[dep]\<close> reads as not declared, and
  \<open>install({ react: '' }, { dev: false })\<close> runs \<open>npm install --save react@latest\<close>.
\<close>

theorem install_empty_range_declared_package:
  "install \<lparr> validRange = (\<lambda>r. False), satisfies = (\<lambda>v r. True) \<rparr>
      \<lparr> manifest_get = (\<lambda>k. if k = ''dependencies'' then Some [''react'' \<mapsto> ''''] else None),
        module_version = [''react'' \<mapsto> ''18.2.0''], yarn_lock = False \<rparr>
      (DepObject [(''react'', '''')])
      \<lparr> opt_dev = Some False, opt_yarn = False, opt_versions = None \<rparr>
    = Inr (Some \<lparr> program = ''npm'', args = [''install'', ''--save'', ''react@latest''],
                  stdio = ''inherit'', cwd = None \<rparr>)
   \<and> getInstalledVersion
      \<lparr> manifest_get = (\<lambda>k. if k = ''dependencies'' then Some [''react'' \<mapsto> ''''] else None),
        module_version = [''react'' \<mapsto> ''18.2.0''], yarn_lock = False \<rparr> ''react'' = Some ''18.2.0''
   \<and> ''react'' \<in> dom (getOwnDependencies
      \<lparr> manifest_get = (\<lambda>k. if k = ''dependencies'' then Some [''react'' \<mapsto> ''''] else None),
        module_version = [''react'' \<mapsto> ''18.2.0''], yarn_lock = False \<rparr> False)"
  by (simp add: install_def getUnsatisfiedDeps_def unsatisfied_def getInstalledVersion_def
      getOwnDependencies_def getVersionedDep_def select_run_def isUsingYarn_def runNpm_def
      get_prop_def)

end
